theory Spec2Isabelle
  imports Complex_Main "HOL-Library.Monad_Syntax"
begin

section \<open>Message payloads\<close>

text \<open>
  The node (\<^verbatim>\<open>ariac_example_node.cpp\<close>) reads a handful of fields of ROS messages. A
  floating-point field is one of the values an IEEE number can take: a finite number
  (both zeros are the real 0, which is how \<^verbatim>\<open>==\<close>, \<^verbatim>\<open>!=\<close> and \<^verbatim>\<open>>\<close> treat them),
  an infinity, or NaN. Widening a \<^verbatim>\<open>float\<close> to a \<^verbatim>\<open>double\<close> is exact, so both C++ types
  share the type below.
\<close>

datatype float = Finite real | PInf | NInf | NaN

text \<open>\<^verbatim>\<open>a != b\<close>: true as soon as one side is NaN.\<close>

definition float_ne :: "float \<Rightarrow> float \<Rightarrow> bool" where
  "float_ne a b = (a = NaN \<or> b = NaN \<or> a \<noteq> b)"

text \<open>\<^verbatim>\<open>a > b\<close>: false as soon as one side is NaN.\<close>

fun float_gt :: "float \<Rightarrow> float \<Rightarrow> bool" where
  "float_gt NaN b = False"
| "float_gt a NaN = False"
| "float_gt (Finite x) (Finite y) = (y < x)"
| "float_gt (Finite x) PInf = False"
| "float_gt (Finite x) NInf = True"
| "float_gt PInf PInf = False"
| "float_gt PInf b = True"
| "float_gt NInf b = False"

text \<open>
  Arithmetic on two \<^verbatim>\<open>float\<close> operands is done in single precision (no wider
  intermediate format, as on x86-64 and ARM) and, as IEEE 754 has it in the default
  rounding mode, gives the exact result rounded to the nearest \<^verbatim>\<open>float\<close>, a tie going to
  the even mantissa. \<open>round_half_even\<close> is the nearest integer with that tie rule.
\<close>

definition round_half_even :: "real \<Rightarrow> int" where
  "round_half_even y =
     (let f = \<lfloor>y\<rfloor>; d = y - of_int f
      in if d < 1 / 2 then f else if 1 / 2 < d then f + 1
         else if even f then f else f + 1)"

text \<open>
  \<open>binade n a\<close> is the exponent of the power of two at or below \<open>a\<close>, searched downwards
  from \<open>n - 126\<close> and never lower than \<open>-126\<close>, where the subnormal numbers begin.
\<close>

fun binade :: "nat \<Rightarrow> real \<Rightarrow> int" where
  "binade 0 a = - 126"
| "binade (Suc n) a = (if 2 powi (int n - 125) \<le> a then int n - 125 else binade n a)"

text \<open>
  A \<^verbatim>\<open>float\<close> has 24 bits of mantissa and exponents from \<open>-126\<close> to \<open>127\<close>: in the
  binade of exponent \<open>e\<close> the numbers are \<open>2 powi (e - 23)\<close> apart. Rounding a real number
  takes the nearest of them; a result of magnitude \<open>2 ^ 128\<close> is beyond the largest
  \<^verbatim>\<open>float\<close> and becomes an infinity.
\<close>

definition float32_round :: "real \<Rightarrow> float" where
  "float32_round x =
     (let a = \<bar>x\<bar>;
          e = binade 253 a;
          q = 2 powi (e - 23);
          y = of_int (round_half_even (a / q)) * q
      in if 2 ^ 128 \<le> y then (if x < 0 then NInf else PInf)
         else Finite (if x < 0 then - y else y))"

text \<open>
  \<^verbatim>\<open>a - b\<close> on two \<^verbatim>\<open>float\<close> operands: on two finite numbers the exact difference,
  rounded; otherwise by the rules for infinities and NaN.
\<close>

fun float_sub :: "float \<Rightarrow> float \<Rightarrow> float" where
  "float_sub NaN b = NaN"
| "float_sub a NaN = NaN"
| "float_sub (Finite x) (Finite y) = float32_round (x - y)"
| "float_sub (Finite x) PInf = NInf"
| "float_sub (Finite x) NInf = PInf"
| "float_sub PInf PInf = NaN"
| "float_sub PInf b = PInf"
| "float_sub NInf NInf = NaN"
| "float_sub NInf b = NInf"

text \<open>\<^verbatim>\<open>std::isfinite\<close>.\<close>

fun isfinite :: "float \<Rightarrow> bool" where
  "isfinite (Finite x) = True"
| "isfinite a = False"

text \<open>
  \<^verbatim>\<open>std_msgs::Float32\<close> and \<^verbatim>\<open>std_msgs::String\<close> carry one field, \<^verbatim>\<open>data\<close>. The other
  records keep the fields of the message definitions without the \<^verbatim>\<open>header\<close>, which
  the node never reads (of a laser scan, only the two arrays of samples). The contents
  of an order and of a camera model are never inspected either; their types stay
  opaque.
\<close>

record 'a std_msg =
  data :: 'a

typedecl order

typedecl model

record joint_state =
  name :: "string list"
  position :: "float list"
  velocity :: "float list"
  effort :: "float list"

text \<open>\<^verbatim>\<open>ros::Duration(d)\<close>, by the seconds it was built from.\<close>

datatype duration = Duration real

record joint_trajectory_point =
  positions :: "float list"
  velocities :: "float list"
  accelerations :: "float list"
  point_effort :: "float list"
  time_from_start :: duration

record joint_trajectory =
  joint_names :: "string list"
  points :: "joint_trajectory_point list"

record range_msg =
  radiation_type :: nat
  field_of_view :: float
  min_range :: float
  max_range :: float
  range' :: float

record laser_scan =
  ranges :: "float list"
  intensities :: "float list"

record proximity =
  object_detected :: bool

record logical_camera_image =
  models :: "model list"

record trigger_response =
  success :: bool
  message :: string

section \<open>What the node does to the outside\<close>

text \<open>
  Every call of the node into the middleware is an action, recorded in the order the
  code makes it. A log statement is recorded with the operands streamed into it, a
  throttled one with its period in seconds: whether rosconsole then prints the line
  (at most once per period) is decided inside the macro, outside this program. The
  \<^verbatim>\<open>_STREAM\<close> variants differ from the \<^verbatim>\<open>printf\<close> ones only in how the text is given.
\<close>

datatype log_item =
    Str string
  | Flt float
  | Cnt nat
  | Ord order
  | JS joint_state
  | JT joint_trajectory

datatype action =
    ROS_INFO "log_item list"
  | ROS_ERROR "log_item list"
  | ROS_INFO_THROTTLE nat "log_item list"
  | Publish string joint_trajectory
  | WaitForExistence
  | Call_start

text \<open>\<^verbatim>\<open>std::vector\<close>'s \<^verbatim>\<open>push_back\<close>, \<^verbatim>\<open>resize(n, v)\<close> and \<^verbatim>\<open>std::count_if\<close>.\<close>

definition push_back :: "'a list \<Rightarrow> 'a \<Rightarrow> 'a list" where
  "push_back xs x = xs @ [x]"

definition resize :: "'a list \<Rightarrow> nat \<Rightarrow> 'a \<Rightarrow> 'a list" where
  "resize xs n v = take n xs @ replicate (n - length xs) v"

definition count_if :: "'a list \<Rightarrow> ('a \<Rightarrow> bool) \<Rightarrow> nat" where
  "count_if xs p = length (filter p xs)"

section \<open>The start service\<close>

text \<open>
  The service \<^verbatim>\<open>/ariac/start_competition\<close> as the client sees it: whether it exists at
  each successive poll, and what a call leaves in \<^verbatim>\<open>srv.response\<close>.
\<close>

record start_service =
  available :: "nat \<Rightarrow> bool"
  reply :: trigger_response

text \<open>
  Modelled from the spec: \<^verbatim>\<open>ServiceClient::waitForExistence\<close> is roscpp's, not this
  repository's. The spec has it block, with no timeout and no cancellation, until the
  service becomes available: it polls from poll \<open>k\<close> on and returns the poll that
  found the service; where none does, it never returns (\<open>None\<close>).
\<close>

partial_function (option) waitForExistence :: "(nat \<Rightarrow> bool) \<Rightarrow> nat \<Rightarrow> nat option" where
  "waitForExistence avail k = (if avail k then Some k else waitForExistence avail (Suc k))"

text \<open>
  \<^verbatim>\<open>start_competition\<close>: \<^verbatim>\<open>exists()\<close> is poll 0, the wait polls from 1 on. The result
  is the actions of a run that returns, \<open>None\<close> for one blocked in the wait for ever.
\<close>

definition start_competition :: "start_service \<Rightarrow> action list option" where
  "start_competition start_client = do {
     waited \<leftarrow>
       (if \<not> available start_client 0 then do {
          _ \<leftarrow> waitForExistence (available start_client) 1;
          Some [ROS_INFO [Str ''Waiting for the competition to be ready...''],
                WaitForExistence,
                ROS_INFO [Str ''Competition is now ready.'']]
        } else Some []);
     let srv = reply start_client;
     Some (waited
       @ [ROS_INFO [Str ''Requesting competition start...''], Call_start]
       @ (if \<not> success srv
          then [ROS_ERROR [Str ''Failed to start the competition: '', Str (message srv)]]
          else [ROS_INFO [Str ''Competition started!'']]))
   }"

section \<open>The class MyCompetition\<close>

record my_competition =
  competition_state :: string
  current_score :: float
  joint_trajectory_publisher :: string
  received_orders :: "order list"
  current_joint_states :: joint_state
  has_been_zeroed :: bool

text \<open>
  The constructor: \<^verbatim>\<open>current_score_(0), has_been_zeroed_(false)\<close>, the publisher
  advertised on \<^verbatim>\<open>/ariac/arm/command\<close>, every other member default-constructed.
\<close>

definition MyCompetition :: my_competition where
  "MyCompetition = \<lparr>
     competition_state = [],
     current_score = Finite 0,
     joint_trajectory_publisher = ''/ariac/arm/command'',
     received_orders = [],
     current_joint_states = \<lparr>name = [], position = [], velocity = [], effort = []\<rparr>,
     has_been_zeroed = False\<rparr>"

definition current_score_callback ::
  "my_competition \<Rightarrow> float std_msg \<Rightarrow> my_competition \<times> action list" where
  "current_score_callback c msg =
     (c\<lparr>current_score := data msg\<rparr>,
      if float_ne (data msg) (current_score c)
      then [ROS_INFO [Str ''Score: '', Flt (data msg)]]
      else [])"

definition competition_state_callback ::
  "my_competition \<Rightarrow> string std_msg \<Rightarrow> my_competition \<times> action list" where
  "competition_state_callback c msg =
     (c\<lparr>competition_state := data msg\<rparr>,
      if data msg = ''done'' \<and> competition_state c \<noteq> ''done''
      then [ROS_INFO [Str ''Competition ended.'']]
      else [])"

definition order_callback :: "my_competition \<Rightarrow> order \<Rightarrow> my_competition \<times> action list" where
  "order_callback c order_msg =
     (c\<lparr>received_orders := push_back (received_orders c) order_msg\<rparr>,
      [ROS_INFO [Str ''Received order:\<newline>'', Ord order_msg]])"

text \<open>
  \<^verbatim>\<open>send_arm_to_zero_state\<close> builds its message statement by statement, logs it and
  publishes it.
\<close>

definition send_arm_to_zero_state :: "my_competition \<Rightarrow> my_competition \<times> action list" where
  "send_arm_to_zero_state c =
     (let msg = \<lparr>joint_names = [], points = []\<rparr>;
          msg = msg\<lparr>joint_names := []\<rparr>;
          msg = msg\<lparr>joint_names := push_back (joint_names msg) ''iiwa_joint_1''\<rparr>;
          msg = msg\<lparr>joint_names := push_back (joint_names msg) ''iiwa_joint_2''\<rparr>;
          msg = msg\<lparr>joint_names := push_back (joint_names msg) ''iiwa_joint_3''\<rparr>;
          msg = msg\<lparr>joint_names := push_back (joint_names msg) ''iiwa_joint_4''\<rparr>;
          msg = msg\<lparr>joint_names := push_back (joint_names msg) ''iiwa_joint_5''\<rparr>;
          msg = msg\<lparr>joint_names := push_back (joint_names msg) ''iiwa_joint_6''\<rparr>;
          msg = msg\<lparr>joint_names := push_back (joint_names msg) ''iiwa_joint_7''\<rparr>;
          msg = msg\<lparr>joint_names := push_back (joint_names msg) ''linear_arm_actuator_joint''\<rparr>;
          msg = msg\<lparr>points := resize (points msg) 1
                  \<lparr>positions = [], velocities = [], accelerations = [], point_effort = [],
                   time_from_start = Duration 0\<rparr>\<rparr>;
          msg = msg\<lparr>points := (points msg)[0 := (points msg ! 0)
                  \<lparr>positions := resize (positions (points msg ! 0))
                                  (length (joint_names msg)) (Finite 0)\<rparr>]\<rparr>;
          msg = msg\<lparr>points := (points msg)[0 := (points msg ! 0)
                  \<lparr>time_from_start := Duration 0.001\<rparr>]\<rparr>
      in (c, [ROS_INFO [Str ''Sending command:\<newline>'', JT msg],
              Publish (joint_trajectory_publisher c) msg]))"

definition joint_state_callback ::
  "my_competition \<Rightarrow> joint_state \<Rightarrow> my_competition \<times> action list" where
  "joint_state_callback c joint_state_msg =
     (let throttled = ROS_INFO_THROTTLE 10
            [Str ''Joint States (throttled to 0.1 Hz):\<newline>'', JS joint_state_msg];
          c = c\<lparr>current_joint_states := joint_state_msg\<rparr>
      in if \<not> has_been_zeroed c
         then (let c = c\<lparr>has_been_zeroed := True\<rparr>;
                   (c, sent) = send_arm_to_zero_state c
               in (c, [throttled, ROS_INFO [Str ''Sending arm to zero joint positions...'']]
                       @ sent))
         else (c, [throttled]))"

definition logical_camera_callback ::
  "my_competition \<Rightarrow> logical_camera_image \<Rightarrow> my_competition \<times> action list" where
  "logical_camera_callback c image_msg =
     (c, [ROS_INFO_THROTTLE 10
            [Str (''Logical camera: '' @ [CHR 0x27]), Cnt (length (models image_msg)),
             Str (CHR 0x27 # '' objects.'')]])"

definition break_beam_callback ::
  "my_competition \<Rightarrow> proximity \<Rightarrow> my_competition \<times> action list" where
  "break_beam_callback c msg =
     (c, if object_detected msg then [ROS_INFO [Str ''Break beam triggered.'']] else [])"

section \<open>The free callbacks\<close>

text \<open>
  In \<^verbatim>\<open>proximity_sensor_callback\<close> the difference of the two \<^verbatim>\<open>float\<close> fields is a
  \<^verbatim>\<open>float\<close>, compared with the \<^verbatim>\<open>double\<close> literal \<^verbatim>\<open>0.01\<close>: the \<^verbatim>\<open>double\<close> nearest to
  1/100, which is \<open>5764607523034235 / 2 ^ 59\<close>.
\<close>

definition proximity_sensor_callback :: "range_msg \<Rightarrow> action list" where
  "proximity_sensor_callback msg =
     (if float_gt (float_sub (max_range msg) (range' msg))
           (Finite (5764607523034235 / 2 ^ 59))
      then [ROS_INFO_THROTTLE 1 [Str ''Proximity sensor sees something.'']]
      else [])"

definition laser_profiler_callback :: "laser_scan \<Rightarrow> action list" where
  "laser_profiler_callback msg =
     (let number_of_valid_ranges = count_if (ranges msg) isfinite
      in if number_of_valid_ranges > 0
         then [ROS_INFO_THROTTLE 1 [Str ''Laser profiler sees something.'']]
         else [])"

section \<open>The process\<close>

text \<open>
  \<^verbatim>\<open>main\<close> subscribes one callback to each topic; a notification is the topic it came
  on with its message. \<^verbatim>\<open>ros::spin\<close> hands the notifications to their callbacks one
  after the other, for as long as the process lives.
\<close>

datatype event =
    Current_score "float std_msg"
  | Competition_state "string std_msg"
  | Orders order
  | Joint_states joint_state
  | Proximity_sensor_1 range_msg
  | Break_beam_1_change proximity
  | Logical_camera_1 logical_camera_image
  | Laser_profiler_1 laser_scan

fun dispatch :: "my_competition \<Rightarrow> event \<Rightarrow> my_competition \<times> action list" where
  "dispatch c (Current_score msg) = current_score_callback c msg"
| "dispatch c (Competition_state msg) = competition_state_callback c msg"
| "dispatch c (Orders msg) = order_callback c msg"
| "dispatch c (Joint_states msg) = joint_state_callback c msg"
| "dispatch c (Proximity_sensor_1 msg) = (c, proximity_sensor_callback msg)"
| "dispatch c (Break_beam_1_change msg) = break_beam_callback c msg"
| "dispatch c (Logical_camera_1 msg) = logical_camera_callback c msg"
| "dispatch c (Laser_profiler_1 msg) = (c, laser_profiler_callback msg)"

fun spin :: "my_competition \<Rightarrow> event list \<Rightarrow> my_competition \<times> action list" where
  "spin c [] = (c, [])"
| "spin c (e # es) =
     (case dispatch c e of (c1, out1) \<Rightarrow>
        (case spin c1 es of (c2, out2) \<Rightarrow> (c2, out1 @ out2)))"

definition main :: "start_service \<Rightarrow> event list \<Rightarrow> (my_competition \<times> action list) option" where
  "main start_client events = do {
     let competition = MyCompetition;
     started \<leftarrow> start_competition start_client;
     let (competition, out) = spin competition events;
     Some (competition, [ROS_INFO [Str ''Setup complete.'']] @ started @ out)
   }"

section \<open>Reading a run\<close>

text \<open>The trajectory messages published, and the operands of the error lines.\<close>

fun published :: "action list \<Rightarrow> joint_trajectory list" where
  "published [] = []"
| "published (Publish topic msg # as) = msg # published as"
| "published (a # as) = published as"

fun error_logs :: "action list \<Rightarrow> log_item list list" where
  "error_logs [] = []"
| "error_logs (ROS_ERROR items # as) = items # error_logs as"
| "error_logs (a # as) = error_logs as"

fun is_joint_states :: "event \<Rightarrow> bool" where
  "is_joint_states (Joint_states msg) = True"
| "is_joint_states e = False"

section \<open>Evaluating the callbacks\<close>

lemma published_append: "published (xs @ ys) = published xs @ published ys"
  by (induction xs rule: published.induct) simp_all

lemma send_arm_to_zero_state_eval:
  "send_arm_to_zero_state c =
     (c, [ROS_INFO [Str ''Sending command:\<newline>'',
            JT \<lparr>joint_names = [''iiwa_joint_1'', ''iiwa_joint_2'', ''iiwa_joint_3'',
                   ''iiwa_joint_4'', ''iiwa_joint_5'', ''iiwa_joint_6'', ''iiwa_joint_7'',
                   ''linear_arm_actuator_joint''],
                points = [\<lparr>positions = [Finite 0, Finite 0, Finite 0, Finite 0,
                                         Finite 0, Finite 0, Finite 0, Finite 0],
                   velocities = [], accelerations = [], point_effort = [],
                   time_from_start = Duration 0.001\<rparr>]\<rparr>],
          Publish (joint_trajectory_publisher c)
             \<lparr>joint_names = [''iiwa_joint_1'', ''iiwa_joint_2'', ''iiwa_joint_3'',
                   ''iiwa_joint_4'', ''iiwa_joint_5'', ''iiwa_joint_6'', ''iiwa_joint_7'',
                   ''linear_arm_actuator_joint''],
                points = [\<lparr>positions = [Finite 0, Finite 0, Finite 0, Finite 0,
                                         Finite 0, Finite 0, Finite 0, Finite 0],
                   velocities = [], accelerations = [], point_effort = [],
                   time_from_start = Duration 0.001\<rparr>]\<rparr>])"
  by (simp add: send_arm_to_zero_state_def push_back_def resize_def Let_def)

lemma dispatch_zeroed:
  "has_been_zeroed c \<Longrightarrow>
     has_been_zeroed (fst (dispatch c e)) \<and> published (snd (dispatch c e)) = []"
  by (cases e)
     (simp_all add: current_score_callback_def competition_state_callback_def
        order_callback_def joint_state_callback_def logical_camera_callback_def
        break_beam_callback_def proximity_sensor_callback_def laser_profiler_callback_def
        Let_def)

lemma fst_spin_Cons: "fst (spin c (e # es)) = fst (spin (fst (dispatch c e)) es)"
  by (simp split: prod.splits)

lemma snd_spin_Cons:
  "snd (spin c (e # es)) = snd (dispatch c e) @ snd (spin (fst (dispatch c e)) es)"
  by (simp split: prod.splits)

lemma spin_zeroed:
  "has_been_zeroed c \<Longrightarrow>
     has_been_zeroed (fst (spin c es)) \<and> published (snd (spin c es)) = []"
proof (induction es arbitrary: c)
  case Nil
  then show ?case by simp
next
  case (Cons e es)
  from dispatch_zeroed [OF Cons.prems, of e]
  have d: "has_been_zeroed (fst (dispatch c e))" "published (snd (dispatch c e)) = []"
    by simp_all
  from Cons.IH [OF d(1)] d(2) show ?case
    by (simp only: fst_spin_Cons snd_spin_Cons published_append) simp
qed

lemma dispatch_other:
  "\<not> is_joint_states e \<Longrightarrow>
     has_been_zeroed (fst (dispatch c e)) = has_been_zeroed c \<and>
     published (snd (dispatch c e)) = []"
  by (cases e)
     (simp_all add: current_score_callback_def competition_state_callback_def
        order_callback_def logical_camera_callback_def
        break_beam_callback_def proximity_sensor_callback_def laser_profiler_callback_def
        Let_def)

lemma joint_state_callback_unzeroed:
  "\<not> has_been_zeroed c \<Longrightarrow>
     has_been_zeroed (fst (joint_state_callback c m)) \<and>
     published (snd (joint_state_callback c m)) = published (snd (send_arm_to_zero_state c0))"
  by (simp add: joint_state_callback_def send_arm_to_zero_state_eval Let_def)

lemma spin_unzeroed:
  "\<not> has_been_zeroed c \<Longrightarrow>
     published (snd (spin c es)) =
       (if list_ex is_joint_states es then published (snd (send_arm_to_zero_state c0)) else [])"
proof (induction es arbitrary: c)
  case Nil
  then show ?case by simp
next
  case (Cons e es)
  show ?case
  proof (cases "is_joint_states e")
    case True
    then obtain m where e: "e = Joint_states m" by (cases e) simp_all
    from joint_state_callback_unzeroed [OF Cons.prems, of m c0]
    have z: "has_been_zeroed (fst (dispatch c e))"
      and p: "published (snd (dispatch c e)) = published (snd (send_arm_to_zero_state c0))"
      by (simp_all add: e)
    from spin_zeroed [OF z, of es] p True show ?thesis
      by (simp only: snd_spin_Cons published_append) simp
  next
    case False
    from dispatch_other [OF False, of c] Cons.prems
    have z: "\<not> has_been_zeroed (fst (dispatch c e))"
      and p: "published (snd (dispatch c e)) = []"
      by simp_all
    from Cons.IH [OF z] p False show ?thesis
      by (simp only: snd_spin_Cons published_append) simp
  qed
qed

lemma float_ne_differs: "float_ne a b = (a = NaN \<or> a \<noteq> b)"
  by (auto simp add: float_ne_def)

lemma score_run:
  "snd (spin c (map Current_score msgs)) =
     map (\<lambda>(p, msg). ROS_INFO [Str ''Score: '', Flt (data msg)])
       (filter (\<lambda>(p, msg). data msg = NaN \<or> data msg \<noteq> p)
          (zip (current_score c # map data msgs) msgs))
   \<and> current_score (fst (spin c (map Current_score msgs))) =
       last (current_score c # map data msgs)"
proof (induction msgs arbitrary: c)
  case Nil
  show ?case by simp
next
  case (Cons msg msgs)
  have d: "current_score_callback c msg =
      (c\<lparr>current_score := data msg\<rparr>,
       if data msg = NaN \<or> data msg \<noteq> current_score c
       then [ROS_INFO [Str ''Score: '', Flt (data msg)]] else [])"
    by (simp add: current_score_callback_def float_ne_differs)
  from Cons.IH [of "c\<lparr>current_score := data msg\<rparr>"] show ?case
    by (simp add: fst_spin_Cons snd_spin_Cons d del: spin.simps)
qed

lemma score_stays_zero:
  "current_score c = Finite 0 \<Longrightarrow>
   \<forall>msg. Current_score msg \<in> set es \<longrightarrow> data msg = Finite 0 \<Longrightarrow>
     ROS_INFO [Str ''Score: '', Flt v] \<notin> set (snd (spin c es)) \<and>
     current_score (fst (spin c es)) = Finite 0"
proof (induction es arbitrary: c)
  case Nil
  then show ?case by simp
next
  case (Cons e es)
  have step: "ROS_INFO [Str ''Score: '', Flt v] \<notin> set (snd (dispatch c e)) \<and>
      current_score (fst (dispatch c e)) = Finite 0"
  proof (cases e)
    case (Current_score msg)
    with Cons.prems have "data msg = Finite 0" by simp
    with Cons.prems(1) Current_score show ?thesis
      by (simp add: current_score_callback_def float_ne_def)
  next
    case (Joint_states msg)
    with Cons.prems(1) show ?thesis
      by (simp add: joint_state_callback_def send_arm_to_zero_state_eval Let_def)
  qed (use Cons.prems(1) in \<open>simp_all add: competition_state_callback_def order_callback_def
        logical_camera_callback_def break_beam_callback_def proximity_sensor_callback_def
        laser_profiler_callback_def Let_def\<close>)
  moreover from Cons.prems(2)
  have "\<forall>msg. Current_score msg \<in> set es \<longrightarrow> data msg = Finite 0" by simp
  with step Cons.IH [of "fst (dispatch c e)"]
  have "ROS_INFO [Str ''Score: '', Flt v] \<notin> set (snd (spin (fst (dispatch c e)) es)) \<and>
      current_score (fst (spin (fst (dispatch c e)) es)) = Finite 0"
    by blast
  ultimately show ?case
    by (simp add: fst_spin_Cons snd_spin_Cons del: spin.simps)
qed

lemma error_logs_append: "error_logs (xs @ ys) = error_logs xs @ error_logs ys"
  by (induction xs rule: error_logs.induct) simp_all

lemma count_if_positive: "(0 < count_if xs p) = (\<exists>x \<in> set xs. p x)"
  by (simp add: count_if_def filter_empty_conv)

section \<open>Rounding to single precision\<close>










section \<open>The wait for the start service\<close>

lemma waitForExistence_returns:
  "avail (k + n) \<Longrightarrow> \<exists>j. waitForExistence avail k = Some j"
proof (induction n arbitrary: k)
  case 0
  then show ?case by (simp add: waitForExistence.simps)
next
  case (Suc n)
  then have "avail (Suc k + n)" by simp
  from Suc.IH [OF this] obtain j where "waitForExistence avail (Suc k) = Some j" ..
  then show ?case by (subst waitForExistence.simps) simp
qed

lemma waitForExistence_found:
  assumes returned: "waitForExistence avail k = Some j"
  shows "k \<le> j \<and> avail j"
proof (rule waitForExistence.raw_induct
    [where P = "\<lambda>avail k j. k \<le> j \<and> avail j", OF _ returned])
  fix w :: "(nat \<Rightarrow> bool) \<Rightarrow> nat \<Rightarrow> nat option" and avail k j
  assume later: "\<And>avail k j. w avail k = Some j \<Longrightarrow> k \<le> j \<and> avail j"
    and unfolded: "(if avail k then Some k else w avail (Suc k)) = Some j"
  show "k \<le> j \<and> avail j"
  proof (cases "avail k")
    case True
    with unfolded show ?thesis by simp
  next
    case False
    with unfolded have "w avail (Suc k) = Some j" by simp
    from later [OF this] show ?thesis by simp
  qed
qed

lemma waitForExistence_blocks:
  "(waitForExistence avail k = None) = (\<forall>j\<ge>k. \<not> avail j)"
proof
  assume "waitForExistence avail k = None"
  show "\<forall>j\<ge>k. \<not> avail j"
  proof (intro allI impI notI)
    fix j assume "k \<le> j" "avail j"
    then have "avail (k + (j - k))" by simp
    from waitForExistence_returns [of avail k "j - k", OF this]
      \<open>waitForExistence avail k = None\<close>
    show False by simp
  qed
next
  assume never: "\<forall>j\<ge>k. \<not> avail j"
  show "waitForExistence avail k = None"
  proof (cases "waitForExistence avail k")
    case None
    then show ?thesis .
  next
    case (Some j)
    from waitForExistence_found [OF this] never show ?thesis by blast
  qed
qed

lemma start_competition_returns:
  assumes "available s k"
  shows "start_competition s =
       Some ((if available s 0 then []
              else [ROS_INFO [Str ''Waiting for the competition to be ready...''],
                    WaitForExistence,
                    ROS_INFO [Str ''Competition is now ready.'']])
             @ [ROS_INFO [Str ''Requesting competition start...''], Call_start,
                if success (reply s) then ROS_INFO [Str ''Competition started!'']
                else ROS_ERROR [Str ''Failed to start the competition: '',
                                Str (message (reply s))]])"
proof (cases "available s 0")
  case True
  then show ?thesis by (simp add: start_competition_def Let_def)
next
  case False
  with assms have "k \<noteq> 0" by (cases k) auto
  with assms have "available s (1 + (k - 1))" by simp
  from waitForExistence_returns [of "available s" 1 "k - 1", OF this]
  obtain j where "waitForExistence (available s) 1 = Some j" ..
  with False show ?thesis by (simp add: start_competition_def Let_def)
qed

lemma start_competition_blocks:
  "(start_competition s = None) = (\<forall>k. \<not> available s k)"
proof (cases "available s 0")
  case True
  then show ?thesis by (auto simp add: start_competition_def Let_def)
next
  case False
  have "(start_competition s = None) = (waitForExistence (available s) 1 = None)"
    using False
    by (cases "waitForExistence (available s) 1") (simp_all add: start_competition_def Let_def)
  also have "\<dots> = (\<forall>j\<ge>1. \<not> available s j)"
    by (rule waitForExistence_blocks)
  also have "\<dots> = (\<forall>k. \<not> available s k)"
  proof
    assume a: "\<forall>j\<ge>1. \<not> available s j"
    show "\<forall>k. \<not> available s k"
    proof
      fix k show "\<not> available s k" using a False by (cases k) auto
    qed
  qed simp
  finally show ?thesis .
qed

lemma dispatch_no_service:
  "Call_start \<notin> set (snd (dispatch c e)) \<and> WaitForExistence \<notin> set (snd (dispatch c e))"
  by (cases e)
     (simp_all add: current_score_callback_def competition_state_callback_def
        order_callback_def joint_state_callback_def send_arm_to_zero_state_eval
        logical_camera_callback_def break_beam_callback_def proximity_sensor_callback_def
        laser_profiler_callback_def Let_def)

lemma spin_no_service:
  "Call_start \<notin> set (snd (spin c es)) \<and> WaitForExistence \<notin> set (snd (spin c es))"
proof (induction es arbitrary: c)
  case Nil
  show ?case by simp
next
  case (Cons e es)
  from dispatch_no_service [of c e] Cons.IH [of "fst (dispatch c e)"] show ?case
    by (simp add: snd_spin_Cons del: spin.simps)
qed

lemma main_unfold:
  "main s es =
     (case start_competition s of None \<Rightarrow> None
      | Some started \<Rightarrow>
          Some (fst (spin MyCompetition es),
                ROS_INFO [Str ''Setup complete.''] # started @ snd (spin MyCompetition es)))"
  by (simp add: main_def split: option.splits prod.splits)

section \<open>The zero-pose command\<close>

text \<open>
  Claim C7. Every invocation of \<^verbatim>\<open>send_arm_to_zero_state\<close> builds and publishes the same
  message, whatever the state of the object: its \<open>joint_names\<close> are the eight names
  \<^verbatim>\<open>iiwa_joint_1\<close> to \<^verbatim>\<open>iiwa_joint_7\<close> and \<^verbatim>\<open>linear_arm_actuator_joint\<close>, in this order; its
  \<open>points\<close> hold one point, whose \<open>positions\<close> are eight zeros and whose
  \<open>time_from_start\<close> is 0.001 seconds. The message is logged, then published once on
  the publisher's topic, and the object is left as it was.
\<close>

theorem zero_state_message:
  "published (snd (send_arm_to_zero_state c)) =
     [\<lparr>joint_names = [''iiwa_joint_1'', ''iiwa_joint_2'', ''iiwa_joint_3'', ''iiwa_joint_4'',
         ''iiwa_joint_5'', ''iiwa_joint_6'', ''iiwa_joint_7'', ''linear_arm_actuator_joint''],
       points = [\<lparr>positions = [Finite 0, Finite 0, Finite 0, Finite 0,
                                Finite 0, Finite 0, Finite 0, Finite 0],
                   velocities = [], accelerations = [], point_effort = [],
                   time_from_start = Duration 0.001\<rparr>]\<rparr>]
   \<and> (\<exists>msg. snd (send_arm_to_zero_state c) =
         [ROS_INFO [Str ''Sending command:\<newline>'', JT msg],
          Publish (joint_trajectory_publisher c) msg])
   \<and> fst (send_arm_to_zero_state c) = c
   \<and> published (snd (send_arm_to_zero_state c)) = published (snd (send_arm_to_zero_state c'))"
  by (simp add: send_arm_to_zero_state_eval)

text \<open>
  Claim C1. The zero-pose command is published once in the life of the process. The
  latch \<open>has_been_zeroed\<close> starts false. A joint-state notification that finds it false
  sets it and publishes what \<^verbatim>\<open>send_arm_to_zero_state\<close> publishes, one message. No
  callback of the node, on any topic, clears a set latch or publishes while it is set.
  So every run of \<^verbatim>\<open>ros::spin\<close> over at least one joint-state notification publishes the
  command exactly once, with the first of them, also when notifications of the other
  topics come in between; before the first joint-state notification nothing is
  published.
\<close>

theorem zero_pose_published_once:
  "\<not> has_been_zeroed MyCompetition
   \<and> has_been_zeroed (fst (joint_state_callback (c\<lparr>has_been_zeroed := False\<rparr>) m))
   \<and> published (snd (joint_state_callback (c\<lparr>has_been_zeroed := False\<rparr>) m)) =
       published (snd (send_arm_to_zero_state c))
   \<and> length (published (snd (send_arm_to_zero_state c))) = 1
   \<and> has_been_zeroed (fst (dispatch (c\<lparr>has_been_zeroed := True\<rparr>) e))
   \<and> published (snd (dispatch (c\<lparr>has_been_zeroed := True\<rparr>) e)) = []
   \<and> published (snd (spin MyCompetition (map Joint_states (m # ms)))) =
       published (snd (send_arm_to_zero_state MyCompetition))
   \<and> published (snd (spin MyCompetition es)) =
       (if list_ex is_joint_states es
        then published (snd (send_arm_to_zero_state MyCompetition)) else [])"
proof -
  have init: "\<not> has_been_zeroed MyCompetition"
    by (simp add: MyCompetition_def)
  have first: "has_been_zeroed (fst (joint_state_callback (c\<lparr>has_been_zeroed := False\<rparr>) m))
      \<and> published (snd (joint_state_callback (c\<lparr>has_been_zeroed := False\<rparr>) m)) =
          published (snd (send_arm_to_zero_state c))"
    by (rule joint_state_callback_unzeroed) simp
  have one: "length (published (snd (send_arm_to_zero_state c))) = 1"
    by (simp add: send_arm_to_zero_state_eval)
  have later: "has_been_zeroed (fst (dispatch (c\<lparr>has_been_zeroed := True\<rparr>) e))
      \<and> published (snd (dispatch (c\<lparr>has_been_zeroed := True\<rparr>) e)) = []"
    by (rule dispatch_zeroed) simp
  have every: "published (snd (spin MyCompetition es)) =
       (if list_ex is_joint_states es
        then published (snd (send_arm_to_zero_state MyCompetition)) else [])" for es
    by (rule spin_unzeroed [OF init])
  have some: "published (snd (spin MyCompetition (map Joint_states (m # ms)))) =
       published (snd (send_arm_to_zero_state MyCompetition))"
    by (simp only: every) simp
  from init first one later some every show ?thesis
    by blast
qed

section \<open>The score\<close>

text \<open>
  Claim C2, as stated, at a failing input: the score NaN delivered twice. After the
  first delivery the stored score is the delivered value, NaN; the second delivery
  repeats it, and is logged all the same, since \<^verbatim>\<open>!=\<close> is true of NaN and itself.
\<close>

theorem score_repeated_nan_logged:
  "current_score (fst (current_score_callback MyCompetition \<lparr>data = NaN\<rparr>)) = NaN
   \<and> snd (current_score_callback
            (fst (current_score_callback MyCompetition \<lparr>data = NaN\<rparr>)) \<lparr>data = NaN\<rparr>) =
       [ROS_INFO [Str ''Score: '', Flt NaN]]"
  by (simp add: current_score_callback_def float_ne_def)

text \<open>
  Claim C2, amended. \<^verbatim>\<open>current_score_callback\<close> emits the line \<^verbatim>\<open>Score: \<close> with the
  delivered value exactly when that value is NaN or differs from the stored one; a
  value delivered again right after itself is logged only if it is NaN. After every
  call the stored score is the delivered value, and nothing else of the object has
  changed. Over a sequence of score notifications the lines emitted are those of the
  notifications whose value is NaN or differs from the value before it, the first
  being compared with the score stored at the start; the score stored at the end is
  the last one delivered.
\<close>

theorem score_logged_on_change:
  "snd (current_score_callback c msg) =
     (if data msg = NaN \<or> data msg \<noteq> current_score c
      then [ROS_INFO [Str ''Score: '', Flt (data msg)]] else [])
   \<and> snd (current_score_callback (c\<lparr>current_score := data msg\<rparr>) msg) =
       (if data msg = NaN then [ROS_INFO [Str ''Score: '', Flt NaN]] else [])
   \<and> fst (current_score_callback c msg) = c\<lparr>current_score := data msg\<rparr>
   \<and> snd (spin c (map Current_score msgs)) =
       map (\<lambda>(p, msg). ROS_INFO [Str ''Score: '', Flt (data msg)])
         (filter (\<lambda>(p, msg). data msg = NaN \<or> data msg \<noteq> p)
            (zip (current_score c # map data msgs) msgs))
   \<and> current_score (fst (spin c (map Current_score msgs))) =
       last (current_score c # map data msgs)"
proof -
  have step: "snd (current_score_callback c msg) =
     (if data msg = NaN \<or> data msg \<noteq> current_score c
      then [ROS_INFO [Str ''Score: '', Flt (data msg)]] else [])" for c
    by (simp add: current_score_callback_def float_ne_differs)
  have again: "snd (current_score_callback (c\<lparr>current_score := data msg\<rparr>) msg) =
       (if data msg = NaN then [ROS_INFO [Str ''Score: '', Flt NaN]] else [])"
    by (simp add: step)
  have stored: "fst (current_score_callback c msg) = c\<lparr>current_score := data msg\<rparr>"
    by (simp add: current_score_callback_def)
  from step [of c] again stored score_run [of c msgs] show ?thesis
    by (simp only: simp_thms)
qed

text \<open>
  The amended claim at a run from the constructed object: 1, 1, 2, NaN, NaN, 2 logs
  1, 2, NaN, NaN and 2.
\<close>

theorem score_logged_on_change_witness:
  "snd (spin MyCompetition (map Current_score
          [\<lparr>data = Finite 1\<rparr>, \<lparr>data = Finite 1\<rparr>, \<lparr>data = Finite 2\<rparr>,
           \<lparr>data = NaN\<rparr>, \<lparr>data = NaN\<rparr>, \<lparr>data = Finite 2\<rparr>])) =
     [ROS_INFO [Str ''Score: '', Flt (Finite 1)], ROS_INFO [Str ''Score: '', Flt (Finite 2)],
      ROS_INFO [Str ''Score: '', Flt NaN], ROS_INFO [Str ''Score: '', Flt NaN],
      ROS_INFO [Str ''Score: '', Flt (Finite 2)]]"
  using score_logged_on_change [of MyCompetition "\<lparr>data = Finite 1\<rparr>"
      "[\<lparr>data = Finite 1\<rparr>, \<lparr>data = Finite 1\<rparr>, \<lparr>data = Finite 2\<rparr>,
        \<lparr>data = NaN\<rparr>, \<lparr>data = NaN\<rparr>, \<lparr>data = Finite 2\<rparr>]"]
  by (simp add: MyCompetition_def)

text \<open>
  Claim C9. The constructor stores the score 0, so a first notification of the score
  0.0 emits no line. In any state, a notification of 0.0 is logged exactly when the
  stored score is not 0. Hence a run from the constructed object, over notifications of
  any topics, that logs the score 0.0 has been delivered a score other than 0.
\<close>

theorem zero_score_first_not_logged:
  "snd (current_score_callback MyCompetition \<lparr>data = Finite 0\<rparr>) = []
   \<and> (snd (current_score_callback c \<lparr>data = Finite 0\<rparr>) =
        [ROS_INFO [Str ''Score: '', Flt (Finite 0)]]) = (current_score c \<noteq> Finite 0)
   \<and> (snd (current_score_callback c \<lparr>data = Finite 0\<rparr>) = []) = (current_score c = Finite 0)
   \<and> (ROS_INFO [Str ''Score: '', Flt (Finite 0)] \<in> set (snd (spin MyCompetition es))
       \<longrightarrow> (\<exists>msg. Current_score msg \<in> set es \<and> data msg \<noteq> Finite 0))"
proof -
  have init: "current_score MyCompetition = Finite 0"
    by (simp add: MyCompetition_def)
  have first: "snd (current_score_callback MyCompetition \<lparr>data = Finite 0\<rparr>) = []"
    by (simp add: current_score_callback_def float_ne_def init)
  have logged: "(snd (current_score_callback c \<lparr>data = Finite 0\<rparr>) =
        [ROS_INFO [Str ''Score: '', Flt (Finite 0)]]) = (current_score c \<noteq> Finite 0)"
    by (auto simp add: current_score_callback_def float_ne_def)
  have silent: "(snd (current_score_callback c \<lparr>data = Finite 0\<rparr>) = []) =
      (current_score c = Finite 0)"
    by (auto simp add: current_score_callback_def float_ne_def)
  have run: "ROS_INFO [Str ''Score: '', Flt (Finite 0)] \<in> set (snd (spin MyCompetition es))
       \<longrightarrow> (\<exists>msg. Current_score msg \<in> set es \<and> data msg \<noteq> Finite 0)"
    using score_stays_zero [OF init, of es "Finite 0"] by blast
  from first logged silent run show ?thesis by blast
qed

text \<open>
  Such a run: the scores 1 and 0 log the score 0.0, and the score 1 is the other value;
  the score 0 alone logs nothing.
\<close>

theorem zero_score_first_not_logged_witness:
  "ROS_INFO [Str ''Score: '', Flt (Finite 0)] \<in>
     set (snd (spin MyCompetition
       [Current_score \<lparr>data = Finite 1\<rparr>, Current_score \<lparr>data = Finite 0\<rparr>]))
   \<and> (\<exists>msg. Current_score msg \<in>
         set [Current_score \<lparr>data = Finite 1\<rparr>, Current_score \<lparr>data = Finite 0\<rparr>]
       \<and> data msg \<noteq> Finite 0)
   \<and> snd (spin MyCompetition [Current_score \<lparr>data = Finite 0\<rparr>]) = []"
proof -
  have logged: "ROS_INFO [Str ''Score: '', Flt (Finite 0)] \<in>
     set (snd (spin MyCompetition
       [Current_score \<lparr>data = Finite 1\<rparr>, Current_score \<lparr>data = Finite 0\<rparr>]))"
    by (simp add: current_score_callback_def MyCompetition_def float_ne_def)
  with zero_score_first_not_logged
    [of MyCompetition "[Current_score \<lparr>data = Finite 1\<rparr>, Current_score \<lparr>data = Finite 0\<rparr>]"]
  show ?thesis by simp
qed

section \<open>The competition state\<close>

text \<open>
  Claim C3. The states \<^verbatim>\<open>running\<close>, \<^verbatim>\<open>running\<close>, \<^verbatim>\<open>done\<close>, delivered to the constructed
  object, emit the line \<^verbatim>\<open>Competition ended.\<close> once: the first two deliveries emit
  nothing and leave \<^verbatim>\<open>running\<close> stored, the third emits the line and stores \<^verbatim>\<open>done\<close>. In
  general a delivery emits the line exactly when it is \<^verbatim>\<open>done\<close> and the stored state is
  not; every delivery stores its state and changes nothing else.
\<close>

theorem competition_ended_on_transition:
  "snd (spin MyCompetition (map Competition_state
          [\<lparr>data = ''running''\<rparr>, \<lparr>data = ''running''\<rparr>, \<lparr>data = ''done''\<rparr>])) =
     [ROS_INFO [Str ''Competition ended.'']]
   \<and> snd (spin MyCompetition (map Competition_state
          [\<lparr>data = ''running''\<rparr>, \<lparr>data = ''running''\<rparr>])) = []
   \<and> competition_state (fst (spin MyCompetition (map Competition_state
          [\<lparr>data = ''running''\<rparr>, \<lparr>data = ''running''\<rparr>]))) = ''running''
   \<and> competition_state (fst (spin MyCompetition (map Competition_state
          [\<lparr>data = ''running''\<rparr>, \<lparr>data = ''running''\<rparr>, \<lparr>data = ''done''\<rparr>]))) = ''done''
   \<and> snd (competition_state_callback c msg) =
       (if data msg = ''done'' \<and> competition_state c \<noteq> ''done''
        then [ROS_INFO [Str ''Competition ended.'']] else [])
   \<and> fst (competition_state_callback c msg) = c\<lparr>competition_state := data msg\<rparr>"
  by (simp add: competition_state_callback_def MyCompetition_def)

text \<open>
  Claim C10. The constructor leaves the stored state empty, so \<^verbatim>\<open>done\<close> as the very
  first state delivered emits the line \<^verbatim>\<open>Competition ended.\<close>, whatever follows; and
  the states \<^verbatim>\<open>done\<close>, \<^verbatim>\<open>running\<close>, \<^verbatim>\<open>done\<close> emit it twice.
\<close>

theorem competition_ended_from_initial_state:
  "competition_state MyCompetition = []
   \<and> snd (competition_state_callback MyCompetition \<lparr>data = ''done''\<rparr>) =
       [ROS_INFO [Str ''Competition ended.'']]
   \<and> snd (spin MyCompetition (map Competition_state (\<lparr>data = ''done''\<rparr> # msgs))) =
       ROS_INFO [Str ''Competition ended.''] #
       snd (spin (MyCompetition\<lparr>competition_state := ''done''\<rparr>) (map Competition_state msgs))
   \<and> snd (spin MyCompetition (map Competition_state
          [\<lparr>data = ''done''\<rparr>, \<lparr>data = ''running''\<rparr>, \<lparr>data = ''done''\<rparr>])) =
       [ROS_INFO [Str ''Competition ended.''], ROS_INFO [Str ''Competition ended.'']]"
  by (simp add: competition_state_callback_def MyCompetition_def split: prod.splits)

section \<open>Starting the competition\<close>

text \<open>
  Claim C4. Provided the start service exists at some poll, \<^verbatim>\<open>start_competition\<close>
  returns, having made one start request. If the response's success flag is false, the
  run has one error line, \<^verbatim>\<open>Failed to start the competition: \<close> followed by the
  response's message, and no line \<^verbatim>\<open>Competition started!\<close>; if the flag is true, it has
  no error line and that success line once. In both cases this line ends the run of
  \<^verbatim>\<open>start_competition\<close>: the request is not repeated, and \<^verbatim>\<open>main\<close> goes on to hand
  the notifications to the callbacks as it would after a successful start.
\<close>

theorem start_failure_logged:
  assumes "available s k"
  shows "\<exists>t. start_competition s = Some t
     \<and> error_logs t =
         (if success (reply s) then []
          else [[Str ''Failed to start the competition: '', Str (message (reply s))]])
     \<and> count_list t (ROS_INFO [Str ''Competition started!'']) =
         (if success (reply s) then 1 else 0)
     \<and> count_list t Call_start = 1
     \<and> last t =
         (if success (reply s) then ROS_INFO [Str ''Competition started!'']
          else ROS_ERROR [Str ''Failed to start the competition: '', Str (message (reply s))])
     \<and> main s es =
         Some (fst (spin MyCompetition es),
               ROS_INFO [Str ''Setup complete.''] # t @ snd (spin MyCompetition es))"
proof -
  let ?t = "(if available s 0 then []
              else [ROS_INFO [Str ''Waiting for the competition to be ready...''],
                    WaitForExistence,
                    ROS_INFO [Str ''Competition is now ready.'']])
             @ [ROS_INFO [Str ''Requesting competition start...''], Call_start,
                if success (reply s) then ROS_INFO [Str ''Competition started!'']
                else ROS_ERROR [Str ''Failed to start the competition: '',
                                Str (message (reply s))]]"
  have returns: "start_competition s = Some ?t"
    by (rule start_competition_returns [OF assms])
  have errors: "error_logs ?t =
         (if success (reply s) then []
          else [[Str ''Failed to start the competition: '', Str (message (reply s))]])"
    by simp
  have started: "count_list ?t (ROS_INFO [Str ''Competition started!'']) =
         (if success (reply s) then 1 else 0)"
    by simp
  have called: "count_list ?t Call_start = 1"
    by simp
  have ends: "last ?t =
         (if success (reply s) then ROS_INFO [Str ''Competition started!'']
          else ROS_ERROR [Str ''Failed to start the competition: '', Str (message (reply s))])"
    by simp
  have goes_on: "main s es =
         Some (fst (spin MyCompetition es),
               ROS_INFO [Str ''Setup complete.''] # ?t @ snd (spin MyCompetition es))"
    by (simp only: main_unfold returns option.case)
  from returns errors started called ends goes_on show ?thesis
    by blast
qed

text \<open>
  The service appears at the second poll and answers success = false with the message
  \<^verbatim>\<open>X\<close>: one error line, holding \<^verbatim>\<open>X\<close>, after one request.
\<close>

theorem start_failure_logged_witness:
  "\<exists>t. start_competition
          \<lparr>available = (\<lambda>k. 2 \<le> k), reply = \<lparr>success = False, message = ''X''\<rparr>\<rparr> = Some t
     \<and> error_logs t = [[Str ''Failed to start the competition: '', Str ''X'']]
     \<and> count_list t (ROS_INFO [Str ''Competition started!'']) = 0
     \<and> count_list t Call_start = 1
     \<and> last t = ROS_ERROR [Str ''Failed to start the competition: '', Str ''X'']"
  using start_failure_logged
    [of "\<lparr>available = (\<lambda>k. 2 \<le> k), reply = \<lparr>success = False, message = ''X''\<rparr>\<rparr>" 2 "[]"]
  by auto

text \<open>
  Claim C8. \<^verbatim>\<open>start_competition\<close> is the sequence wait, call, check. Provided the
  service exists at some poll, the run is: only if the service does not exist at the
  first check, the line \<^verbatim>\<open>Waiting for the competition to be ready...\<close>, the blocking
  wait and the line \<^verbatim>\<open>Competition is now ready.\<close>; then, always, the line
  \<^verbatim>\<open>Requesting competition start...\<close>, one start request, and the line that reports its
  result. The whole process, \<^verbatim>\<open>main\<close> with any notifications dispatched afterwards,
  makes the request once and waits at most once. If the service never exists, the wait
  never returns: \<^verbatim>\<open>start_competition\<close>, and with it \<^verbatim>\<open>main\<close>, has no result.
\<close>

theorem start_protocol_linear:
  "(available s k \<longrightarrow>
      start_competition s =
        Some ((if available s 0 then []
               else [ROS_INFO [Str ''Waiting for the competition to be ready...''],
                     WaitForExistence,
                     ROS_INFO [Str ''Competition is now ready.'']])
              @ [ROS_INFO [Str ''Requesting competition start...''], Call_start,
                 if success (reply s) then ROS_INFO [Str ''Competition started!'']
                 else ROS_ERROR [Str ''Failed to start the competition: '',
                                 Str (message (reply s))]])
      \<and> (\<exists>c t. main s es = Some (c, t)
            \<and> count_list t Call_start = 1
            \<and> count_list t WaitForExistence = (if available s 0 then 0 else 1)))
   \<and> ((\<forall>k. \<not> available s k) \<longrightarrow> start_competition s = None \<and> main s es = None)"
proof (intro conjI impI)
  assume up: "available s k"
  let ?t = "(if available s 0 then []
              else [ROS_INFO [Str ''Waiting for the competition to be ready...''],
                    WaitForExistence,
                    ROS_INFO [Str ''Competition is now ready.'']])
             @ [ROS_INFO [Str ''Requesting competition start...''], Call_start,
                if success (reply s) then ROS_INFO [Str ''Competition started!'']
                else ROS_ERROR [Str ''Failed to start the competition: '',
                                Str (message (reply s))]]"
  show returns: "start_competition s = Some ?t"
    by (rule start_competition_returns [OF up])
  let ?all = "ROS_INFO [Str ''Setup complete.''] # ?t @ snd (spin MyCompetition es)"
  have whole: "main s es = Some (fst (spin MyCompetition es), ?all)"
    by (simp only: main_unfold returns option.case)
  from spin_no_service [of MyCompetition es]
  have quiet: "count_list (snd (spin MyCompetition es)) Call_start = 0"
    "count_list (snd (spin MyCompetition es)) WaitForExistence = 0"
    by (simp_all add: count_list_0_iff)
  have "count_list ?all Call_start = 1"
    "count_list ?all WaitForExistence = (if available s 0 then 0 else 1)"
    using quiet by simp_all
  with whole
  show "\<exists>c t. main s es = Some (c, t)
            \<and> count_list t Call_start = 1
            \<and> count_list t WaitForExistence = (if available s 0 then 0 else 1)"
    by blast
next
  assume never: "\<forall>k. \<not> available s k"
  then show blocked: "start_competition s = None"
    by (simp add: start_competition_blocks)
  show "main s es = None"
    by (simp only: main_unfold blocked option.case)
qed

text \<open>
  Three services: one that appears at the second poll (wait, then call), one that is
  there from the start (call at once), one that never appears (no result).
\<close>

theorem start_protocol_linear_witness:
  "start_competition
      \<lparr>available = (\<lambda>k. 2 \<le> k), reply = \<lparr>success = True, message = []\<rparr>\<rparr> =
     Some [ROS_INFO [Str ''Waiting for the competition to be ready...''],
           WaitForExistence,
           ROS_INFO [Str ''Competition is now ready.''],
           ROS_INFO [Str ''Requesting competition start...''], Call_start,
           ROS_INFO [Str ''Competition started!'']]
   \<and> start_competition
      \<lparr>available = (\<lambda>k. True), reply = \<lparr>success = True, message = []\<rparr>\<rparr> =
     Some [ROS_INFO [Str ''Requesting competition start...''], Call_start,
           ROS_INFO [Str ''Competition started!'']]
   \<and> start_competition
      \<lparr>available = (\<lambda>k. False), reply = \<lparr>success = True, message = []\<rparr>\<rparr> = None"
  using start_protocol_linear
      [of "\<lparr>available = (\<lambda>k. 2 \<le> k), reply = \<lparr>success = True, message = []\<rparr>\<rparr>" 2 "[]"]
    start_protocol_linear
      [of "\<lparr>available = (\<lambda>k. True), reply = \<lparr>success = True, message = []\<rparr>\<rparr>" 0 "[]"]
    start_protocol_linear
      [of "\<lparr>available = (\<lambda>k. False), reply = \<lparr>success = True, message = []\<rparr>\<rparr>" 0 "[]"]
  by simp

section \<open>The sensors\<close>




text \<open>
  Claim C6. \<^verbatim>\<open>laser_profiler_callback\<close> issues its log statement
  \<^verbatim>\<open>Laser profiler sees something.\<close> (throttled to one line a second) exactly when the
  count of finite samples among the scan's ranges is positive, that is, when at least
  one sample is finite; a scan whose samples are all infinite or NaN, or that has no
  sample, does not issue it.
\<close>

theorem laser_logged_iff_finite_reading:
  "laser_profiler_callback msg =
     (if 0 < count_if (ranges msg) isfinite
      then [ROS_INFO_THROTTLE 1 [Str ''Laser profiler sees something.'']] else [])
   \<and> (0 < count_if (ranges msg) isfinite) = (\<exists>x \<in> set (ranges msg). isfinite x)
   \<and> ((\<exists>x \<in> set (ranges msg). isfinite x) \<longrightarrow>
        laser_profiler_callback msg =
          [ROS_INFO_THROTTLE 1 [Str ''Laser profiler sees something.'']])
   \<and> ((\<forall>x \<in> set (ranges msg). \<not> isfinite x) \<longrightarrow> laser_profiler_callback msg = [])"
proof -
  have eval: "laser_profiler_callback msg =
     (if 0 < count_if (ranges msg) isfinite
      then [ROS_INFO_THROTTLE 1 [Str ''Laser profiler sees something.'']] else [])"
    by (simp add: laser_profiler_callback_def Let_def)
  have pos: "(0 < count_if (ranges msg) isfinite) = (\<exists>x \<in> set (ranges msg). isfinite x)"
    by (rule count_if_positive)
  from eval pos show ?thesis by auto
qed

text \<open>
  A scan with the samples plus infinity, 1.5 and NaN issues the log statement; scans
  with plus infinity, minus infinity and NaN, or with no sample, do not.
\<close>

theorem laser_logged_iff_finite_reading_witness:
  "laser_profiler_callback \<lparr>ranges = [PInf, Finite 1.5, NaN], intensities = []\<rparr> =
     [ROS_INFO_THROTTLE 1 [Str ''Laser profiler sees something.'']]
   \<and> laser_profiler_callback \<lparr>ranges = [PInf, NInf, NaN], intensities = []\<rparr> = []
   \<and> laser_profiler_callback \<lparr>ranges = [], intensities = []\<rparr> = []"
  using laser_logged_iff_finite_reading [of "\<lparr>ranges = [PInf, Finite 1.5, NaN], intensities = []\<rparr>"]
    laser_logged_iff_finite_reading [of "\<lparr>ranges = [PInf, NInf, NaN], intensities = []\<rparr>"]
    laser_logged_iff_finite_reading [of "\<lparr>ranges = [], intensities = []\<rparr>"]
  by simp

end
